theory Spec2Isabelle
  imports Complex_Main "HOL-Library.Word" "HOL-Library.AList"
begin

section \<open>Python values used by the sources\<close>

text \<open>
  Exceptions raised by the sources and by the library calls they make.  The payload of
  \<open>ValueError\<close> is the message text where the source builds one.
\<close>

datatype py_error =
    ValueError string
  | StructError
  | KeyError string
  | OverflowError
  | TimeoutError string
  | RuntimeError string
  | FileNotFoundError string
  | TimeoutExpired
  | TypeError
  | Unmodelled   \<comment> \<open>not a Python exception: the model does not follow the source here\<close>

text \<open>\<open>str(n)\<close> for a non-negative Python integer: its decimal digits.\<close>

definition digit_char :: "nat \<Rightarrow> char" where
  "digit_char d = ''0123456789'' ! d"

function str_nat :: "nat \<Rightarrow> string" where
  "str_nat n = (if n < 10 then [digit_char n] else str_nat (n div 10) @ [digit_char (n mod 10)])"
  by pat_completeness auto
termination
  by (relation "measure id") auto

declare str_nat.simps [simp del]

text \<open>\<open>str.lower()\<close>; only the ASCII letters have an upper case among single bytes.\<close>

definition lower_char :: "char \<Rightarrow> char" where
  "lower_char c =
     (case map_of (zip ''ABCDEFGHIJKLMNOPQRSTUVWXYZ'' ''abcdefghijklmnopqrstuvwxyz'') c of
        None \<Rightarrow> c
      | Some l \<Rightarrow> l)"

definition lower_str :: "string \<Rightarrow> string" where
  "lower_str s = map lower_char s"

subsection \<open>Floats\<close>

text \<open>
  A Python \<open>float\<close> is a finite double (its exact real value), an infinity or a NaN.
  Comparison with zero and \<open>int(x)\<close> are exact on these values.  The rounding operations
  (conversion of an integer and multiplication) are not defined here: they are the
  fields of \<open>num_ops\<close>, supplied by the caller, together with the conversions
  \<open>float(x)\<close> of an array element and of a string.
\<close>

datatype pyfloat = Finite real | PosInf | NegInf | NaN

record 'a num_ops =
  float_of_int :: "int \<Rightarrow> pyfloat option"   \<comment> \<open>\<open>float(i)\<close>; \<open>None\<close> is OverflowError\<close>
  flt_mul :: "pyfloat \<Rightarrow> pyfloat \<Rightarrow> pyfloat"
  elem_float :: "'a \<Rightarrow> pyfloat"
  float_of_str :: "string \<Rightarrow> pyfloat option"   \<comment> \<open>\<open>float(s)\<close>; \<open>None\<close> is ValueError\<close>

definition py_trunc :: "real \<Rightarrow> int" where
  "py_trunc x = (if 0 \<le> x then \<lfloor>x\<rfloor> else \<lceil>x\<rceil>)"

fun py_int :: "pyfloat \<Rightarrow> py_error + int" where
  "py_int (Finite x) = Inr (py_trunc x)"
| "py_int NaN = Inl (ValueError ''cannot convert float NaN to integer'')"
| "py_int PosInf = Inl OverflowError"
| "py_int NegInf = Inl OverflowError"

fun py_gt0 :: "pyfloat \<Rightarrow> bool" where
  "py_gt0 (Finite x) = (0 < x)"
| "py_gt0 PosInf = True"
| "py_gt0 NegInf = False"
| "py_gt0 NaN = False"

text \<open>\<open>i * x\<close> for an integer \<open>i\<close> and a float \<open>x\<close>.\<close>

definition int_times_float :: "'a num_ops \<Rightarrow> int \<Rightarrow> pyfloat \<Rightarrow> py_error + pyfloat" where
  "int_times_float ops i x =
     (case float_of_int ops i of
        None \<Rightarrow> Inl OverflowError
      | Some y \<Rightarrow> Inr (flt_mul ops y x))"

subsection \<open>Arrays, values and dictionaries\<close>

text \<open>
  A numpy array of one or two dimensions; \<open>Arr2 c rows\<close> has shape
  \<open>(length rows, c)\<close>.  A dictionary value is an array, a list of strings, a float,
  an integer, a string or the list of channel descriptors that \<open>readpl4\<close> builds; a
  dictionary is an association list in insertion order.
\<close>

datatype 'a ndarray = Arr1 "'a list" | Arr2 nat "'a list list"

record var_info =
  v_TYPE :: int
  v_FROM :: string
  v_TO :: string
  v_TYPE_NAME :: string

datatype 'a pyval =
    VArr "'a ndarray"
  | VStrs "string list"
  | VFloat pyfloat
  | VInt int
  | VStr string
  | VInfo "var_info list"

type_synonym 'a pydict = "(string \<times> 'a pyval) list"

definition dict_get :: "'a pydict \<Rightarrow> string \<Rightarrow> 'a pyval option" where
  "dict_get d k = map_of d k"

definition dict_set :: "'a pydict \<Rightarrow> string \<Rightarrow> 'a pyval \<Rightarrow> 'a pydict" where
  "dict_set d k v = AList.update k v d"

definition dict_has :: "'a pydict \<Rightarrow> string \<Rightarrow> bool" where
  "dict_has d k = (k \<in> set (map fst d))"

text \<open>\<open>np.asarray(v).ndim\<close>, \<open>.shape[0]\<close> and \<open>.shape[1]\<close>.\<close>

fun val_ndim :: "'a pyval \<Rightarrow> nat" where
  "val_ndim (VArr (Arr1 xs)) = 1"
| "val_ndim (VArr (Arr2 c rows)) = 2"
| "val_ndim (VStrs l) = 1"
| "val_ndim (VFloat x) = 0"
| "val_ndim (VInt i) = 0"
| "val_ndim (VStr s) = 0"
| "val_ndim (VInfo l) = 1"

fun val_shape0 :: "'a pyval \<Rightarrow> nat" where
  "val_shape0 (VArr (Arr1 xs)) = length xs"
| "val_shape0 (VArr (Arr2 c rows)) = length rows"
| "val_shape0 (VStrs l) = length l"
| "val_shape0 (VFloat x) = 0"
| "val_shape0 (VInt i) = 0"
| "val_shape0 (VStr s) = 0"
| "val_shape0 (VInfo l) = length l"

fun val_shape1 :: "'a pyval \<Rightarrow> nat" where
  "val_shape1 (VArr (Arr2 c rows)) = c"
| "val_shape1 v = 0"

text \<open>
  The slices \<open>x[n:]\<close> and \<open>x[:-n]\<close> of a one-dimensional value, and \<open>x[:, n:]\<close>
  and \<open>x[:, :-n]\<close> of a two-dimensional one, for \<open>0 < n\<close> below the length.
\<close>

fun slice_from :: "nat \<Rightarrow> 'a pyval \<Rightarrow> 'a pyval" where
  "slice_from n (VArr (Arr1 xs)) = VArr (Arr1 (drop n xs))"
| "slice_from n (VStrs l) = VStrs (drop n l)"
| "slice_from n (VInfo l) = VInfo (drop n l)"
| "slice_from n v = v"

fun slice_upto_last :: "nat \<Rightarrow> 'a pyval \<Rightarrow> 'a pyval" where
  "slice_upto_last n (VArr (Arr1 xs)) = VArr (Arr1 (take (length xs - n) xs))"
| "slice_upto_last n (VStrs l) = VStrs (take (length l - n) l)"
| "slice_upto_last n (VInfo l) = VInfo (take (length l - n) l)"
| "slice_upto_last n v = v"

fun cols_from :: "nat \<Rightarrow> 'a pyval \<Rightarrow> 'a pyval" where
  "cols_from n (VArr (Arr2 c rows)) = VArr (Arr2 (c - n) (map (drop n) rows))"
| "cols_from n v = v"

fun cols_upto_last :: "nat \<Rightarrow> 'a pyval \<Rightarrow> 'a pyval" where
  "cols_upto_last n (VArr (Arr2 c rows)) = VArr (Arr2 (c - n) (map (take (c - n)) rows))"
| "cols_upto_last n v = v"

text \<open>\<open>float(v)\<close>; an array converts only when it holds exactly one element.\<close>

fun py_float :: "'a num_ops \<Rightarrow> 'a pyval \<Rightarrow> py_error + pyfloat" where
  "py_float ops (VFloat x) = Inr x"
| "py_float ops (VInt i) =
     (case float_of_int ops i of None \<Rightarrow> Inl OverflowError | Some x \<Rightarrow> Inr x)"
| "py_float ops (VArr (Arr1 xs)) =
     (case xs of [x] \<Rightarrow> Inr (elem_float ops x) | _ \<Rightarrow> Inl TypeError)"
| "py_float ops (VArr (Arr2 c rows)) =
     (case rows of [[x]] \<Rightarrow> Inr (elem_float ops x) | _ \<Rightarrow> Inl TypeError)"
| "py_float ops (VStrs l) = Inl TypeError"
| "py_float ops (VInfo l) = Inl TypeError"
| "py_float ops (VStr s) =
     (case float_of_str ops s of None \<Rightarrow> Inl (ValueError s) | Some x \<Rightarrow> Inr x)"

section \<open>f\_readpl4.py: \<open>readpl4\<close>\<close>

text \<open>
  The file is the list of its bytes.  \<open>py_slice xs a b\<close> is \<open>xs[a:b]\<close> for
  \<open>0 \<le> a \<le> b\<close>: it is shorter than \<open>b - a\<close> when the list ends before \<open>b\<close>,
  and then \<open>struct.unpack\<close> raises \<open>struct.error\<close>.
\<close>

type_synonym byte = "8 word"

definition py_slice :: "'a list \<Rightarrow> nat \<Rightarrow> nat \<Rightarrow> 'a list" where
  "py_slice xs a b = take (b - a) (drop a xs)"

definition bind_err :: "py_error + 'a \<Rightarrow> ('a \<Rightarrow> py_error + 'b) \<Rightarrow> py_error + 'b" where
  "bind_err m f = (case m of Inl e \<Rightarrow> Inl e | Inr x \<Rightarrow> f x)"

text \<open>\<open>struct.unpack("<L", b)[0]\<close>: four bytes, least significant first.\<close>

definition unpack_u32_le :: "byte list \<Rightarrow> py_error + int" where
  "unpack_u32_le b =
     (case b of
        [b0, b1, b2, b3] \<Rightarrow> Inr (uint b0 + 256 * uint b1 + 65536 * uint b2 + 16777216 * uint b3)
      | _ \<Rightarrow> Inl StructError)"

text \<open>
  The value of a binary32 pattern: sign, eight exponent bits, twenty-three fraction
  bits.  \<open>struct.unpack("<f", b)[0]\<close> is the value of the little-endian pattern.
\<close>

definition f32_value :: "int \<Rightarrow> pyfloat" where
  "f32_value v =
     (let s = v div 2 ^ 31;
          e = (v div 2 ^ 23) mod 256;
          m = v mod 2 ^ 23;
          sgn = (if s = 0 then 1 else - 1 :: real)
      in if e = 255 then (if m = 0 then (if s = 0 then PosInf else NegInf) else NaN)
         else if e = 0 then Finite (sgn * real_of_int m / 2 ^ 149)
         else Finite (sgn * real_of_int (2 ^ 23 + m) * 2 ^ nat e / 2 ^ 150))"

definition unpack_f32_le :: "byte list \<Rightarrow> py_error + pyfloat" where
  "unpack_f32_le b = bind_err (unpack_u32_le b) (\<lambda>v. Inr (f32_value v))"

text \<open>\<open>int(c)\<close> for a \<open>bytes\<close> object of length one: an ASCII digit or ValueError.\<close>

definition int_of_byte_char :: "byte \<Rightarrow> py_error + int" where
  "int_of_byte_char c =
     (if 48 \<le> uint c \<and> uint c \<le> 57 then Inr (uint c - 48)
      else Inl (ValueError ''invalid literal for int()''))"

definition type_map :: "int \<Rightarrow> string" where
  "type_map t =
     (if t = 4 then ''V-node'' else if t = 7 then ''E-bran''
      else if t = 8 then ''V-bran'' else if t = 9 then ''I-bran''
      else ''Type-'' @ str_nat (nat t))"

text \<open>
  The loop over the channel descriptors.  \<open>dec\<close> is
  \<open>bytes.decode('utf-8', errors='ignore').strip()\<close>, supplied by the caller.
\<close>

fun read_var_info :: "(byte list \<Rightarrow> string) \<Rightarrow> byte list \<Rightarrow> nat list \<Rightarrow> py_error + var_info list" where
  "read_var_info dec pl4 [] = Inr []"
| "read_var_info dec pl4 (i # rest) =
     (let pos = 5 * 16 + i * 16;
          h = py_slice pl4 pos (pos + 16)
      in if length h \<noteq> 16 then Inl StructError
         else bind_err (int_of_byte_char (h ! 3)) (\<lambda>t.
              bind_err (read_var_info dec pl4 rest) (\<lambda>vs.
                Inr (\<lparr> v_TYPE = t, v_FROM = dec (py_slice h 4 10), v_TO = dec (py_slice h 10 16),
                       v_TYPE_NAME = type_map t \<rparr> # vs))))"

text \<open>
  \<open>np.memmap(f, dtype=float32, mode="r", shape=(steps, ncols), offset=offset)\<close>,
  copied into an array: a negative dimension is rejected, and so is a region that ends
  after the end of the file; row \<open>r\<close> holds the \<open>ncols\<close> values stored from byte
  \<open>offset + 4 * r * ncols\<close> on.
\<close>

definition f32_at :: "byte list \<Rightarrow> nat \<Rightarrow> pyfloat" where
  "f32_at file off =
     (case unpack_f32_le (py_slice file off (off + 4)) of Inr x \<Rightarrow> x | Inl e \<Rightarrow> NaN)"

definition np_memmap :: "byte list \<Rightarrow> int \<Rightarrow> int \<Rightarrow> int \<Rightarrow> py_error + pyfloat list list" where
  "np_memmap file steps ncols offset =
     (if steps < 0 then Inl (ValueError ''negative dimensions are not allowed'')
      else if int (length file) < offset + steps * ncols * 4
      then Inl (ValueError ''mmap length is greater than file size'')
      else Inr (map (\<lambda>r. map (\<lambda>c. f32_at file (nat offset + (r * nat ncols + c) * 4))
                              [0..<nat ncols])
                    [0..<nat steps]))"

definition readpl4 :: "pyfloat num_ops \<Rightarrow> (byte list \<Rightarrow> string) \<Rightarrow> byte list \<Rightarrow> py_error + pyfloat pydict" where
  "readpl4 ops dec pl4 =
     (if pl4 = [] then Inl (ValueError ''cannot mmap an empty file'')
      else
        bind_err (unpack_f32_le (py_slice pl4 40 44)) (\<lambda>deltat.
        bind_err (unpack_u32_le (py_slice pl4 48 52)) (\<lambda>raw_nvar.
        bind_err (unpack_u32_le (py_slice pl4 56 60)) (\<lambda>raw_size.
          let nvar = raw_nvar div 2;
              pl4size = raw_size - 1;
              steps = (pl4size - 5 * 16 - nvar * 16) div ((nvar + 1) * 4)
          in
        bind_err (int_times_float ops (steps - 1) deltat) (\<lambda>tmax.
        bind_err (read_var_info dec pl4 [0..<nat nvar]) (\<lambda>var_info.
          let expsize = (5 + nvar) * 16 + steps * (nvar + 1) * 4;
              nullbytes = (if pl4size > expsize then pl4size - expsize else 0)
          in
        bind_err (np_memmap pl4 steps (nvar + 1) ((5 + nvar) * 16 + nullbytes)) (\<lambda>data_array.
          let time = map (\<lambda>row. row ! 0) data_array;
              data_matrix = map (\<lambda>c. map (\<lambda>row. row ! Suc c) data_array) [0..<nat nvar];
              labels = map (\<lambda>v. v_FROM v @ ''-'' @ v_TO v @ '' ('' @ v_TYPE_NAME v @ '')'') var_info
          in Inr [(''data'', VArr (Arr2 (nat steps) data_matrix)),
                  (''time'', VArr (Arr1 time)),
                  (''method'', VStr ''readpl4_mmap_based''),
                  (''n_channels'', VInt nvar),
                  (''n_samples'', VInt steps),
                  (''delta_t'', VFloat deltat),
                  (''tmax'', VFloat tmax),
                  (''var_info'', VInfo var_info),
                  (''measurement_nodes'', VStrs (map v_FROM var_info)),
                  (''type_signals'', VStrs (map v_TYPE_NAME var_info)),
                  (''labels'', VStrs labels)])))))))"

text \<open>The little-endian unsigned 32-bit integer stored at byte offset \<open>a\<close>.\<close>

definition u32_le_at :: "byte list \<Rightarrow> nat \<Rightarrow> int" where
  "u32_le_at pl4 a =
     uint (pl4 ! a) + 256 * uint (pl4 ! (a + 1)) + 65536 * uint (pl4 ! (a + 2))
       + 16777216 * uint (pl4 ! (a + 3))"

section \<open>f\_readpl4.py: cropping\<close>

text \<open>
  \<open>_calc_n_remover\<close>: \<open>int(fs_por_ciclo * float(freq_rede_hz) * float(tempo_remover_s))\<close>,
  zero when the expression raises, then \<open>max(n, 0)\<close>.  The helper nested in
  \<open>save_results_parquet\<close> and \<open>Pl4Processor._n_remover\<close> have the same body.
\<close>

definition calc_n_remover :: "'a num_ops \<Rightarrow> int \<Rightarrow> pyfloat \<Rightarrow> pyfloat \<Rightarrow> int" where
  "calc_n_remover ops fs_por_ciclo freq_rede_hz tempo_remover_s =
     (let n = (case int_times_float ops fs_por_ciclo freq_rede_hz of
                 Inl e \<Rightarrow> 0
               | Inr p \<Rightarrow>
                   (case py_int (flt_mul ops p tempo_remover_s) of
                      Inl e \<Rightarrow> 0
                    | Inr n \<Rightarrow> n))
      in max n 0)"

text \<open>
  The tail shared by \<open>_apply_cut_full_dict\<close> and \<open>_recortar_resultado\<close> once the
  slices are taken: the shallow copy with \<open>time\<close>, \<open>data\<close> and \<open>n_samples\<close>
  replaced, and \<open>tmax\<close> recomputed when \<open>delta_t\<close> is present.
\<close>

definition store_cut :: "'a num_ops \<Rightarrow> 'a pydict \<Rightarrow> 'a pyval \<Rightarrow> 'a pyval \<Rightarrow> py_error + 'a pydict" where
  "store_cut ops d time_new data_new =
     (let out = dict_set d ''time'' time_new;
          out = dict_set out ''data'' data_new;
          n_samples = int (val_shape0 time_new);
          out = dict_set out ''n_samples'' (VInt n_samples)
      in case dict_get out ''delta_t'' of
           None \<Rightarrow> Inr out
         | Some v \<Rightarrow>
             (case py_float ops v of
                Inl e \<Rightarrow> Inl e
              | Inr dt \<Rightarrow>
                  (case int_times_float ops (n_samples - 1) dt of
                     Inl e \<Rightarrow> Inl e
                   | Inr tmax \<Rightarrow> Inr (dict_set out ''tmax'' (VFloat tmax)))))"

definition apply_cut_full_dict ::
  "'a num_ops \<Rightarrow> 'a pydict \<Rightarrow> bool \<Rightarrow> int \<Rightarrow> pyfloat \<Rightarrow> pyfloat \<Rightarrow> string \<Rightarrow> py_error + 'a pydict" where
  "apply_cut_full_dict ops data_dict remover_amostras fs_por_ciclo freq_rede_hz tempo_remover_s remover_de =
     (if \<not> (remover_amostras \<and> py_gt0 tempo_remover_s) then Inr data_dict
      else case (dict_get data_dict ''time'', dict_get data_dict ''data'') of
        (Some time, Some data) \<Rightarrow>
          if val_ndim time \<noteq> 1 \<or> val_ndim data \<noteq> 2 \<or> val_shape1 data \<noteq> val_shape0 time
          then Inr data_dict
          else
            (let n_drop = calc_n_remover ops fs_por_ciclo freq_rede_hz tempo_remover_s;
                 N = int (val_shape0 time)
             in if n_drop \<le> 0 \<or> n_drop \<ge> N then Inr data_dict
                else if lower_str remover_de = ''fim''
                then store_cut ops data_dict
                       (slice_upto_last (nat n_drop) time) (cols_upto_last (nat n_drop) data)
                else store_cut ops data_dict
                       (slice_from (nat n_drop) time) (cols_from (nat n_drop) data))
      | _ \<Rightarrow> Inr data_dict)"

section \<open>step3\_Pl42Parquet.py: \<open>Pl4Processor\<close>\<close>

text \<open>
  The fields of \<open>Pl4Processor\<close> that the cropping methods read.  \<open>__init__\<close> stores
  \<open>remover_de\<close> already lower-cased and stripped.
\<close>

record pl4_processor =
  remover_amostras :: bool
  fs_por_ciclo :: int
  freq_rede_hz :: pyfloat
  tempo_remover_s :: pyfloat
  remover_de :: string

definition n_remover :: "'a num_ops \<Rightarrow> pl4_processor \<Rightarrow> int" where
  "n_remover ops self =
     calc_n_remover ops (fs_por_ciclo self) (freq_rede_hz self) (tempo_remover_s self)"

text \<open>
  \<open>_recortar_resultado\<close> reads the keys with \<open>dict.get\<close>: a missing key gives
  \<open>None\<close>, whose array has no dimension, so the dictionary is returned as it is.
\<close>

definition recortar_resultado :: "'a num_ops \<Rightarrow> pl4_processor \<Rightarrow> 'a pydict \<Rightarrow> py_error + 'a pydict" where
  "recortar_resultado ops self resultado =
     (if \<not> (remover_amostras self \<and> py_gt0 (tempo_remover_s self)) then Inr resultado
      else case (dict_get resultado ''time'', dict_get resultado ''data'') of
        (Some time, Some data) \<Rightarrow>
          if val_ndim time \<noteq> 1 \<or> val_ndim data \<noteq> 2 \<or> val_shape1 data \<noteq> val_shape0 time
          then Inr resultado
          else
            (let n_drop = n_remover ops self;
                 N = int (val_shape0 time)
             in if n_drop \<le> 0 \<or> n_drop \<ge> N then Inr resultado
                else if remover_de self = ''fim''
                then store_cut ops resultado
                       (slice_upto_last (nat n_drop) time) (cols_upto_last (nat n_drop) data)
                else store_cut ops resultado
                       (slice_from (nat n_drop) time) (cols_from (nat n_drop) data))
      | _ \<Rightarrow> Inr resultado)"

section \<open>f\_readpl4.py: duplicate labels in \<open>save_results_parquet\<close>\<close>

text \<open>
  The renaming loop of \<open>save_results_parquet\<close> (both branches carry the same loop):
  \<open>counts\<close> is the \<open>Counter\<close> of the labels, \<open>seen\<close> the dictionary of
  occurrences met so far.
\<close>

fun rename_loop :: "(string \<Rightarrow> nat) \<Rightarrow> (string \<rightharpoonup> nat) \<Rightarrow> string list \<Rightarrow> string list" where
  "rename_loop counts seen [] = []"
| "rename_loop counts seen (lbl # rest) =
     (if counts lbl > 1
      then (let k = (case seen lbl of None \<Rightarrow> 0 | Some c \<Rightarrow> c) + 1
            in (lbl @ ''_'' @ str_nat k) # rename_loop counts (seen(lbl \<mapsto> k)) rest)
      else lbl # rename_loop counts seen rest)"

definition dedup_labels :: "string list \<Rightarrow> string list" where
  "dedup_labels labels =
     (let counts = count_list labels
      in if (\<exists>l \<in> set labels. counts l > 1)
         then rename_loop counts Map.empty labels
         else labels)"

section \<open>Pl4paraMatlab.py: waiting for the converter's output\<close>

text \<open>
  A directory is the list of its entries in listing order; names are compared as
  \<open>pathlib\<close> does on a POSIX file system, letter case included.  \<open>path_suffix\<close>
  and \<open>path_stem\<close> are \<open>Path.suffix\<close> and \<open>Path.stem\<close> of a file name.
\<close>

datatype entry = File int | Subdir

type_synonym directory = "(string \<times> entry) list"

definition rfind_dot :: "string \<Rightarrow> nat option" where
  "rfind_dot name =
     (if CHR ''.'' \<in> set name
      then Some (length name - 1 - length (takeWhile (\<lambda>c. c \<noteq> CHR ''.'') (rev name)))
      else None)"

definition path_suffix :: "string \<Rightarrow> string" where
  "path_suffix name =
     (case rfind_dot name of
        None \<Rightarrow> []
      | Some i \<Rightarrow> if 0 < i \<and> i < length name - 1 then drop i name else [])"

definition path_stem :: "string \<Rightarrow> string" where
  "path_stem name =
     (case rfind_dot name of
        None \<Rightarrow> name
      | Some i \<Rightarrow> if 0 < i \<and> i < length name - 1 then take i name else name)"

definition is_file :: "directory \<Rightarrow> string \<Rightarrow> bool" where
  "is_file d name = (case map_of d name of Some (File sz) \<Rightarrow> True | _ \<Rightarrow> False)"

definition exists_in :: "directory \<Rightarrow> string \<Rightarrow> bool" where
  "exists_in d name = (map_of d name \<noteq> None)"

definition STABILIZE_TRIES :: nat where "STABILIZE_TRIES = 6"
definition WAIT_APPEAR_TIMEOUT :: int where "WAIT_APPEAR_TIMEOUT = 120"

text \<open>
  \<open>_find_generated_mat_in_dir\<close>: the three spellings first, then any file whose
  suffix and stem match without regard to case.
\<close>

definition find_generated_mat_in_dir :: "directory \<Rightarrow> string \<Rightarrow> string option" where
  "find_generated_mat_in_dir dir_path stem =
     (case filter (is_file dir_path) [stem @ ''.mat'', stem @ ''.MAT'', stem @ ''.Mat''] of
        c # cs \<Rightarrow> Some c
      | [] \<Rightarrow>
          (case filter (\<lambda>(p, e). is_file dir_path p \<and> lower_str (path_suffix p) = ''.mat''
                              \<and> lower_str (path_stem p) = lower_str stem) dir_path of
             (p, e) # ps \<Rightarrow> Some p
           | [] \<Rightarrow> None))"

text \<open>
  The first loop of \<open>_wait_for_mat_creation_and_stabilize\<close>.  Each test of the loop
  condition reads the clock and, when the time is not up, looks at the directory: the
  environment is the list of these observations (seconds elapsed, directory).  The
  result is \<open>None\<close> when the observations end while the loop is still running.
\<close>

fun wait_appear :: "(real \<times> directory) list \<Rightarrow> string \<Rightarrow> int \<Rightarrow> string option option" where
  "wait_appear [] stem appear_timeout_s = None"
| "wait_appear ((elapsed, dir_path) # rest) stem appear_timeout_s =
     (if elapsed < real_of_int appear_timeout_s
      then (case find_generated_mat_in_dir dir_path stem of
              Some mat_path \<Rightarrow> Some (Some mat_path)
            | None \<Rightarrow> wait_appear rest stem appear_timeout_s)
      else Some None)"

text \<open>
  The second loop: \<open>tries\<close> reads of the size remain, \<open>stat i\<close> is the outcome of
  the \<open>i\<close>-th read (\<open>None\<close> when \<open>stat()\<close> raises).  The result is the value of
  \<open>last_size\<close> after the loop.
\<close>

fun stabilize :: "nat \<Rightarrow> nat \<Rightarrow> (nat \<Rightarrow> int option) \<Rightarrow> int \<Rightarrow> nat \<Rightarrow> py_error + int" where
  "stabilize 0 i stat last_size stable_count = Inr last_size"
| "stabilize (Suc tries) i stat last_size stable_count =
     (case stat i of
        None \<Rightarrow> Inl (FileNotFoundError ''stat'')
      | Some sz \<Rightarrow>
          (let stable_count = (if sz = last_size \<and> sz > 0 then stable_count + 1 else 0)
           in if stable_count \<ge> 2 then Inr sz
              else stabilize tries (Suc i) stat sz stable_count))"

definition wait_for_mat_creation_and_stabilize ::
  "(real \<times> directory) list \<Rightarrow> (string \<Rightarrow> nat \<Rightarrow> int option) \<Rightarrow> string \<Rightarrow> int
   \<Rightarrow> (py_error + string) option" where
  "wait_for_mat_creation_and_stabilize polls stat stem appear_timeout_s =
     (case wait_appear polls stem appear_timeout_s of
        None \<Rightarrow> None
      | Some None \<Rightarrow> Some (Inl (TimeoutError stem))
      | Some (Some mat_path) \<Rightarrow>
          Some (case stabilize STABILIZE_TRIES 0 (stat mat_path) (-1) 0 of
                  Inl e \<Rightarrow> Inl e
                | Inr last_size \<Rightarrow>
                    if last_size \<le> 0 then Inl (RuntimeError mat_path) else Inr mat_path))"

text \<open>
  \<open>_run_pl42mat_like_matlab\<close>.  The environment says whether the converter exists,
  which files \<open>unlink\<close> can remove, what \<open>subprocess.run\<close> does to the working
  directory (an exception, or the observations made afterwards), the sizes read and
  whether the final move succeeds.  The exit code of the converter is only logged.
\<close>

record converter_env =
  pl42mat_exists :: bool
  can_unlink :: "string \<Rightarrow> bool"
  run_converter :: "directory \<Rightarrow> py_error + (real \<times> directory) list"
  stat_size :: "string \<Rightarrow> nat \<Rightarrow> int option"
  move_ok :: "string \<Rightarrow> bool"

text \<open>The loop that removes old output before the converter runs.\<close>

fun remove_old :: "converter_env \<Rightarrow> directory \<Rightarrow> string list \<Rightarrow> directory" where
  "remove_old env d [] = d"
| "remove_old env d (old # olds) =
     (if exists_in d old
      then (if is_file d old \<and> can_unlink env old
            then remove_old env (AList.delete old d) olds
            else remove_old env d olds)
      else remove_old env d olds)"

definition run_pl42mat_like_matlab ::
  "converter_env \<Rightarrow> directory \<Rightarrow> string \<Rightarrow> (py_error + string) option" where
  "run_pl42mat_like_matlab env pasta_pl4 pl4_name =
     (if \<not> pl42mat_exists env then Some (Inl (FileNotFoundError ''Pl42mat.exe''))
      else
        (let stem = path_stem pl4_name;
             cleaned = remove_old env pasta_pl4 [stem @ ''.mat'', stem @ ''.MAT'', stem @ ''.Mat'']
         in case run_converter env cleaned of
              Inl e \<Rightarrow> Some (Inl e)
            | Inr polls \<Rightarrow>
                (case wait_for_mat_creation_and_stabilize polls (stat_size env) stem WAIT_APPEAR_TIMEOUT of
                   None \<Rightarrow> None
                 | Some (Inl e) \<Rightarrow> Some (Inl e)
                 | Some (Inr mat_in_cwd) \<Rightarrow>
                     if move_ok env mat_in_cwd then Some (Inr (''ArquivosMAT/'' @ mat_in_cwd))
                     else Some (Inl (RuntimeError mat_in_cwd)))))"

text \<open>
  An environment for examples: the converter exists and writes nothing, every file can
  be removed and moved, every read of a size gives 5.
\<close>

definition idle_converter :: converter_env where
  "idle_converter =
     \<lparr> pl42mat_exists = True,
       can_unlink = (\<lambda>name. True),
       run_converter = (\<lambda>d. Inr [(0, d)]),
       stat_size = (\<lambda>name i. Some 5),
       move_ok = (\<lambda>name. True) \<rparr>"

section \<open>Arithmetic for evaluating examples\<close>

text \<open>
  Exact arithmetic on finite values.  It agrees with the double arithmetic wherever the
  exact result is a double, as it is for the small integers of the examples.
\<close>

definition exact_ops :: "('a \<Rightarrow> pyfloat) \<Rightarrow> 'a num_ops" where
  "exact_ops ef =
     \<lparr> float_of_int = (\<lambda>i. Some (Finite (real_of_int i))),
       flt_mul = (\<lambda>x y. case (x, y) of (Finite a, Finite b) \<Rightarrow> Finite (a * b) | _ \<Rightarrow> NaN),
       elem_float = ef,
       float_of_str = (\<lambda>s. None) \<rparr>"

text \<open>
  A decoder for examples: capital letters and digits are kept, every other byte is
  dropped.  On names made of capital letters and digits, padded with spaces, it is
  \<open>decode('utf-8', errors='ignore').strip()\<close>.
\<close>

definition example_dec :: "byte list \<Rightarrow> string" where
  "example_dec bs =
     concat (map (\<lambda>b. let n = unat b in
                    if 65 \<le> n \<and> n \<le> 90 then [''ABCDEFGHIJKLMNOPQRSTUVWXYZ'' ! (n - 65)]
                    else if 48 \<le> n \<and> n \<le> 57 then [''0123456789'' ! (n - 48)]
                    else []) bs)"

text \<open>
  Two files for examples, each with one channel (type 9, from NODEA to NODEB), sampling
  interval 0.5 and the two records (0.0, 1.0) and (0.5, 2.0).  The first declares 112
  payload bytes; the second declares 116 and carries four padding bytes between the
  channel descriptor and the records.
\<close>

definition example_pl4 :: "byte list" where
  "example_pl4 = [0, 0, 0, 0, 0, 0, 0, 0, 0, 0, 0, 0, 0, 0, 0, 0, 0, 0, 0, 0, 0, 0, 0, 0, 0, 0, 0, 0, 0, 0, 0, 0, 0, 0, 0, 0, 0, 0, 0, 0, 0, 0, 0, 63, 0, 0, 0, 0, 2, 0, 0, 0, 0, 0, 0, 0, 113, 0, 0, 0, 0, 0, 0, 0, 0, 0, 0, 0, 0, 0, 0, 0, 0, 0, 0, 0, 0, 0, 0, 0, 0, 0, 0, 57, 78, 79, 68, 69, 65, 32, 78, 79, 68, 69, 66, 32, 0, 0, 0, 0, 0, 0, 128, 63, 0, 0, 0, 63, 0, 0, 0, 64]"

definition example_pl4_padded :: "byte list" where
  "example_pl4_padded = [0, 0, 0, 0, 0, 0, 0, 0, 0, 0, 0, 0, 0, 0, 0, 0, 0, 0, 0, 0, 0, 0, 0, 0, 0, 0, 0, 0, 0, 0, 0, 0, 0, 0, 0, 0, 0, 0, 0, 0, 0, 0, 0, 63, 0, 0, 0, 0, 2, 0, 0, 0, 0, 0, 0, 0, 117, 0, 0, 0, 0, 0, 0, 0, 0, 0, 0, 0, 0, 0, 0, 0, 0, 0, 0, 0, 0, 0, 0, 0, 0, 0, 0, 57, 78, 79, 68, 69, 65, 32, 78, 79, 68, 69, 66, 32, 0, 0, 0, 0, 0, 0, 0, 0, 0, 0, 128, 63, 0, 0, 0, 63, 0, 0, 0, 64]"

section \<open>Properties\<close>

subsection \<open>Dictionaries\<close>

lemma dict_get_set: "dict_get (dict_set d k v) k' = (if k' = k then Some v else dict_get d k')"
  by (simp add: dict_get_def dict_set_def update_conv')

subsection \<open>Decoding\<close>

lemma bind_err_Inr: "bind_err m f = Inr y \<longleftrightarrow> (\<exists>x. m = Inr x \<and> f x = Inr y)"
  by (cases m) (simp_all add: bind_err_def)

lemma bind_err_Inl [simp]: "bind_err (Inl e) f = Inl e"
  by (simp add: bind_err_def)

lemma bind_err_Inr_simp [simp]: "bind_err (Inr x) f = f x"
  by (simp add: bind_err_def)

lemma unpack_u32_le_at:
  assumes "unpack_u32_le (py_slice pl4 a (a + 4)) = Inr v"
  shows "a + 4 \<le> length pl4 \<and>
         v = uint (pl4 ! a) + 256 * uint (pl4 ! (a + 1)) + 65536 * uint (pl4 ! (a + 2))
             + 16777216 * uint (pl4 ! (a + 3))"
proof -
  from assms obtain b0 b1 b2 b3 where bs: "py_slice pl4 a (a + 4) = [b0, b1, b2, b3]"
    and v: "v = uint b0 + 256 * uint b1 + 65536 * uint b2 + 16777216 * uint b3"
    by (auto simp: unpack_u32_le_def split: list.splits)
  from bs have len: "length (take 4 (drop a pl4)) = 4"
    by (simp add: py_slice_def)
  then have le: "a + 4 \<le> length pl4" by simp
  have nth: "[b0, b1, b2, b3] ! i = pl4 ! (a + i)" if "i < 4" for i
    using that le bs [symmetric] by (simp add: py_slice_def)
  have "b0 = pl4 ! a" "b1 = pl4 ! (a + 1)" "b2 = pl4 ! (a + 2)" "b3 = pl4 ! (a + 3)"
    using nth [of 0] nth [of 1] nth [of 2] nth [of 3] by simp_all
  with v le show ?thesis by simp
qed

lemma list_of_length_4:
  assumes "length xs = 4"
  shows "\<exists>b0 b1 b2 b3. xs = [b0, b1, b2, b3]"
  using assms by (auto simp: length_Suc_conv eval_nat_numeral)

lemma unpack_u32_le_iff:
  "unpack_u32_le (py_slice pl4 a (a + 4)) = Inr v \<longleftrightarrow>
     a + 4 \<le> length pl4 \<and> v = u32_le_at pl4 a"
proof
  assume "unpack_u32_le (py_slice pl4 a (a + 4)) = Inr v"
  from unpack_u32_le_at [OF this] show "a + 4 \<le> length pl4 \<and> v = u32_le_at pl4 a"
    by (simp add: u32_le_at_def)
next
  assume r: "a + 4 \<le> length pl4 \<and> v = u32_le_at pl4 a"
  then have len: "length (take 4 (drop a pl4)) = 4" by auto
  from list_of_length_4 [OF this]
  obtain b0 b1 b2 b3 where bs: "take 4 (drop a pl4) = [b0, b1, b2, b3]"
    by blast
  have nth: "[b0, b1, b2, b3] ! i = pl4 ! (a + i)" if "i < 4" for i
    using that r bs [symmetric] by simp
  have "b0 = pl4 ! a" "b1 = pl4 ! (a + 1)" "b2 = pl4 ! (a + 2)" "b3 = pl4 ! (a + 3)"
    using nth [of 0] nth [of 1] nth [of 2] nth [of 3] by simp_all
  with r bs show "unpack_u32_le (py_slice pl4 a (a + 4)) = Inr v"
    by (simp add: unpack_u32_le_def py_slice_def u32_le_at_def)
qed

lemma u32_le_at_nonneg: "0 \<le> u32_le_at pl4 a"
  by (simp add: u32_le_at_def)

lemma read_var_info_total:
  assumes "\<forall>i \<in> set idx. 5 * 16 + i * 16 + 16 \<le> length pl4
             \<and> 48 \<le> uint (pl4 ! (5 * 16 + i * 16 + 3)) \<and> uint (pl4 ! (5 * 16 + i * 16 + 3)) \<le> 57"
  shows "\<exists>vs. read_var_info dec pl4 idx = Inr vs"
  using assms
proof (induction idx)
  case Nil
  then show ?case by simp
next
  case (Cons i idx)
  then obtain vs where vs: "read_var_info dec pl4 idx = Inr vs" by auto
  from Cons.prems have le: "5 * 16 + i * 16 + 16 \<le> length pl4"
    and dg: "48 \<le> uint (pl4 ! (5 * 16 + i * 16 + 3))" "uint (pl4 ! (5 * 16 + i * 16 + 3)) \<le> 57"
    by auto
  have len: "length (py_slice pl4 (5 * 16 + i * 16) (5 * 16 + i * 16 + 16)) = 16"
    using le by (simp add: py_slice_def)
  have h3: "py_slice pl4 (5 * 16 + i * 16) (5 * 16 + i * 16 + 16) ! 3 = pl4 ! (5 * 16 + i * 16 + 3)"
    using le by (simp add: py_slice_def)
  show ?case
    using len h3 dg vs by (simp add: Let_def int_of_byte_char_def)
qed

lemma np_memmap_ok:
  assumes "0 \<le> steps" "offset + steps * ncols * 4 \<le> int (length file)"
  shows "\<exists>rows. np_memmap file steps ncols offset = Inr rows"
  using assms by (simp add: np_memmap_def)

lemma readpl4_returns:
  assumes nvar: "nvar = u32_le_at pl4 48 div 2"
    and size: "pl4size = u32_le_at pl4 56 - 1"
    and steps: "steps = (pl4size - 5 * 16 - nvar * 16) div ((nvar + 1) * 4)"
    and len: "60 \<le> length pl4"
    and pos: "0 \<le> steps"
    and fits: "pl4size \<le> int (length pl4)"
    and flt: "float_of_int ops (steps - 1) \<noteq> None"
    and heads: "\<forall>i < nat nvar. 5 * 16 + i * 16 + 16 \<le> length pl4
             \<and> 48 \<le> uint (pl4 ! (5 * 16 + i * 16 + 3)) \<and> uint (pl4 ! (5 * 16 + i * 16 + 3)) \<le> 57"
  shows "\<exists>r. readpl4 ops dec pl4 = Inr r"
proof -
  have ne: "pl4 \<noteq> []" using len by auto
  have u40: "unpack_u32_le (py_slice pl4 40 44) = Inr (u32_le_at pl4 40)"
    using unpack_u32_le_iff [of pl4 40 "u32_le_at pl4 40"] len by simp
  have u48: "unpack_u32_le (py_slice pl4 48 52) = Inr (u32_le_at pl4 48)"
    using unpack_u32_le_iff [of pl4 48 "u32_le_at pl4 48"] len by simp
  have u56: "unpack_u32_le (py_slice pl4 56 60) = Inr (u32_le_at pl4 56)"
    using unpack_u32_le_iff [of pl4 56 "u32_le_at pl4 56"] len by simp
  have f40: "unpack_f32_le (py_slice pl4 40 44) = Inr (f32_value (u32_le_at pl4 40))"
    by (simp add: unpack_f32_le_def u40)
  from flt obtain tmax where
    tm: "int_times_float ops (steps - 1) (f32_value (u32_le_at pl4 40)) = Inr tmax"
    by (auto simp: int_times_float_def)
  from heads have "\<forall>i \<in> set [0..<nat nvar]. 5 * 16 + i * 16 + 16 \<le> length pl4
             \<and> 48 \<le> uint (pl4 ! (5 * 16 + i * 16 + 3)) \<and> uint (pl4 ! (5 * 16 + i * 16 + 3)) \<le> 57"
    by simp
  from read_var_info_total [OF this]
  obtain vs where vs: "read_var_info dec pl4 [0..<nat nvar] = Inr vs" by blast
  have nv: "0 \<le> nvar"
    using u32_le_at_nonneg [of pl4 48] by (simp add: nvar)
  define D where "D = (nvar + 1) * 4"
  define N where "N = pl4size - 5 * 16 - nvar * 16"
  have D: "0 < D" using nv by (simp add: D_def)
  have st: "steps = N div D" by (simp add: steps N_def D_def)
  have dm: "N = steps * D + N mod D" by (simp add: st)
  have md: "0 \<le> N mod D" using D by simp
  define expsize where "expsize = (5 + nvar) * 16 + steps * (nvar + 1) * 4"
  define nullbytes where "nullbytes = (if pl4size > expsize then pl4size - expsize else 0)"
  have ex: "pl4size - expsize = N mod D"
    using dm by (simp add: expsize_def N_def D_def algebra_simps)
  have nb: "nullbytes = pl4size - expsize"
    using md ex by (simp add: nullbytes_def)
  have "(5 + nvar) * 16 + nullbytes + steps * (nvar + 1) * 4 = pl4size"
    by (simp add: nb expsize_def)
  with fits have "(5 + nvar) * 16 + nullbytes + steps * (nvar + 1) * 4 \<le> int (length pl4)"
    by simp
  from np_memmap_ok [OF pos this]
  obtain rows where rows: "np_memmap pl4 steps (nvar + 1) ((5 + nvar) * 16 + nullbytes) = Inr rows"
    by blast
  show ?thesis
    apply (simp only: readpl4_def ne if_False f40 u48 u56 bind_err_Inr_simp Let_def)
    apply (simp only: nvar [symmetric] size [symmetric])
    apply (simp only: steps [symmetric])
    apply (simp only: tm vs bind_err_Inr_simp expsize_def [symmetric])
    apply (simp only: nullbytes_def [symmetric] rows bind_err_Inr_simp)
    apply blast
    done
qed

lemma readpl4_Inr:
  assumes ok: "readpl4 ops dec pl4 = Inr r"
    and nvar: "nvar = u32_le_at pl4 48 div 2"
    and size: "pl4size = u32_le_at pl4 56 - 1"
    and steps: "steps = (pl4size - 5 * 16 - nvar * 16) div ((nvar + 1) * 4)"
    and nullbytes: "nullbytes = (if pl4size > (5 + nvar) * 16 + steps * (nvar + 1) * 4
                     then pl4size - ((5 + nvar) * 16 + steps * (nvar + 1) * 4) else 0)"
  shows "\<exists>tmax vs rows.
    60 \<le> length pl4 \<and>
    int_times_float ops (steps - 1) (f32_value (u32_le_at pl4 40)) = Inr tmax \<and>
    read_var_info dec pl4 [0..<nat nvar] = Inr vs \<and>
    np_memmap pl4 steps (nvar + 1) ((5 + nvar) * 16 + nullbytes) = Inr rows \<and>
    dict_get r ''delta_t'' = Some (VFloat (f32_value (u32_le_at pl4 40))) \<and>
    dict_get r ''n_channels'' = Some (VInt nvar) \<and>
    dict_get r ''n_samples'' = Some (VInt steps) \<and>
    dict_get r ''tmax'' = Some (VFloat tmax) \<and>
    dict_get r ''time'' = Some (VArr (Arr1 (map (\<lambda>row. row ! 0) rows)))"
proof -
  from ok have ne: "pl4 \<noteq> []"
    by (auto simp: readpl4_def)
  from ok ne obtain deltat where d: "unpack_f32_le (py_slice pl4 40 44) = Inr deltat"
    by (cases "unpack_f32_le (py_slice pl4 40 44)") (auto simp: readpl4_def)
  from ok ne d obtain raw_nvar where n: "unpack_u32_le (py_slice pl4 48 52) = Inr raw_nvar"
    by (cases "unpack_u32_le (py_slice pl4 48 52)") (auto simp: readpl4_def)
  from ok ne d n obtain raw_size where z: "unpack_u32_le (py_slice pl4 56 60) = Inr raw_size"
    by (cases "unpack_u32_le (py_slice pl4 56 60)") (auto simp: readpl4_def)
  from d obtain v40 where v40: "unpack_u32_le (py_slice pl4 40 44) = Inr v40"
    and dv: "deltat = f32_value v40"
    by (auto simp: unpack_f32_le_def bind_err_Inr)
  have e40: "v40 = u32_le_at pl4 40"
    using unpack_u32_le_iff [of pl4 40 v40] v40 by simp
  have e48: "raw_nvar = u32_le_at pl4 48"
    using unpack_u32_le_iff [of pl4 48 raw_nvar] n by simp
  have e56: "raw_size = u32_le_at pl4 56" and len: "60 \<le> length pl4"
    using unpack_u32_le_iff [of pl4 56 raw_size] z by simp_all
  note hdr = d [unfolded dv e40] n [unfolded e48] z [unfolded e56]
  have step1: "bind_err (int_times_float ops (steps - 1) (f32_value (u32_le_at pl4 40))) (\<lambda>tmax.
        bind_err (read_var_info dec pl4 [0..<nat nvar]) (\<lambda>var_info.
        bind_err (np_memmap pl4 steps (nvar + 1) ((5 + nvar) * 16 + nullbytes)) (\<lambda>data_array.
          Inr [(''data'', VArr (Arr2 (nat steps)
                  (map (\<lambda>c. map (\<lambda>row. row ! Suc c) data_array) [0..<nat nvar]))),
                  (''time'', VArr (Arr1 (map (\<lambda>row. row ! 0) data_array))),
                  (''method'', VStr ''readpl4_mmap_based''),
                  (''n_channels'', VInt nvar),
                  (''n_samples'', VInt steps),
                  (''delta_t'', VFloat (f32_value (u32_le_at pl4 40))),
                  (''tmax'', VFloat tmax),
                  (''var_info'', VInfo var_info),
                  (''measurement_nodes'', VStrs (map v_FROM var_info)),
                  (''type_signals'', VStrs (map v_TYPE_NAME var_info)),
                  (''labels'', VStrs (map (\<lambda>v. v_FROM v @ ''-'' @ v_TO v @ '' ('' @ v_TYPE_NAME v @ '')'')
                                  var_info))]))) = Inr r"
    using ok
    apply (simp only: readpl4_def ne if_False hdr bind_err_Inr_simp Let_def)
    apply (simp only: nvar [symmetric] size [symmetric])
    apply (simp only: steps [symmetric])
    apply (simp only: nullbytes [symmetric])
    done
  then obtain tmax vs rows where
    tm: "int_times_float ops (steps - 1) (f32_value (u32_le_at pl4 40)) = Inr tmax"
    and vs: "read_var_info dec pl4 [0..<nat nvar] = Inr vs"
    and rows: "np_memmap pl4 steps (nvar + 1) ((5 + nvar) * 16 + nullbytes) = Inr rows"
    and r: "r = [(''data'', VArr (Arr2 (nat steps)
                  (map (\<lambda>c. map (\<lambda>row. row ! Suc c) rows) [0..<nat nvar]))),
                  (''time'', VArr (Arr1 (map (\<lambda>row. row ! 0) rows))),
                  (''method'', VStr ''readpl4_mmap_based''),
                  (''n_channels'', VInt nvar),
                  (''n_samples'', VInt steps),
                  (''delta_t'', VFloat (f32_value (u32_le_at pl4 40))),
                  (''tmax'', VFloat tmax),
                  (''var_info'', VInfo vs),
                  (''measurement_nodes'', VStrs (map v_FROM vs)),
                  (''type_signals'', VStrs (map v_TYPE_NAME vs)),
                  (''labels'', VStrs (map (\<lambda>v. v_FROM v @ ''-'' @ v_TO v @ '' ('' @ v_TYPE_NAME v @ '')'')
                                  vs))]"
    unfolding bind_err_Inr by blast
  have gets: "dict_get r ''delta_t'' = Some (VFloat (f32_value (u32_le_at pl4 40)))"
    "dict_get r ''n_channels'' = Some (VInt nvar)"
    "dict_get r ''n_samples'' = Some (VInt steps)"
    "dict_get r ''tmax'' = Some (VFloat tmax)"
    "dict_get r ''time'' = Some (VArr (Arr1 (map (\<lambda>row. row ! 0) rows)))"
    by (simp_all add: r dict_get_def)
  from len tm vs rows gets show ?thesis by blast
qed

lemma nullbytes_mod:
  fixes nvar pl4size :: int
  assumes "0 \<le> nvar"
  shows "(if pl4size > (5 + nvar) * 16 + (pl4size - 5 * 16 - nvar * 16) div ((nvar + 1) * 4) * (nvar + 1) * 4
          then pl4size - ((5 + nvar) * 16 + (pl4size - 5 * 16 - nvar * 16) div ((nvar + 1) * 4) * (nvar + 1) * 4)
          else 0)
         = (pl4size - 5 * 16 - nvar * 16) mod ((nvar + 1) * 4)"
proof -
  define D where "D = (nvar + 1) * 4"
  define N where "N = pl4size - 5 * 16 - nvar * 16"
  define q where "q = N div D"
  define X where "X = (5 + nvar) * 16 + q * (nvar + 1) * 4"
  have D: "0 < D" using assms by (simp add: D_def)
  have dm: "N = q * D + N mod D" by (simp add: q_def)
  have md: "0 \<le> N mod D" using D by simp
  have "q * (nvar + 1) * 4 = q * D" by (simp add: D_def)
  then have "X = (5 + nvar) * 16 + q * D" by (simp add: X_def)
  then have diff: "pl4size - X = N mod D"
    using dm by (simp add: N_def)
  have "(if pl4size > X then pl4size - X else 0) = N mod D"
    using diff md by (cases "pl4size > X") simp_all
  then show ?thesis
    by (simp only: X_def q_def N_def D_def)
qed

lemma memmap_time:
  assumes "np_memmap file steps ncols offset = Inr rows" "0 < ncols"
  shows "map (\<lambda>row. row ! 0) rows
         = map (\<lambda>i. f32_at file (nat offset + i * (nat ncols * 4))) [0..<nat steps]"
proof -
  from assms have rows: "rows = map (\<lambda>r. map (\<lambda>c. f32_at file (nat offset + (r * nat ncols + c) * 4))
                              [0..<nat ncols]) [0..<nat steps]"
    by (auto simp: np_memmap_def split: if_splits)
  have "0 < nat ncols" using assms by simp
  then show ?thesis
    by (simp add: rows algebra_simps)
qed

lemma example_pl4_header:
  "u32_le_at example_pl4 40 = 1056964608" "u32_le_at example_pl4 48 = 2"
  "u32_le_at example_pl4 56 = 113" "length example_pl4 = 112"
  by (simp_all add: u32_le_at_def example_pl4_def)

lemma example_pl4_decoded:
  "readpl4 (exact_ops id) example_dec example_pl4 =
   Inr [(''data'', VArr (Arr2 2 [[Finite 1, Finite 2]])),
      (''time'', VArr (Arr1 [Finite 0, Finite (1 / 2)])),
      (''method'', VStr ''readpl4_mmap_based''), (''n_channels'', VInt 1),
      (''n_samples'', VInt 2), (''delta_t'', VFloat (Finite (1 / 2))),
      (''tmax'', VFloat (Finite (1 / 2))),
      (''var_info'',
       VInfo [\<lparr>v_TYPE = 9, v_FROM = ''NODEA'', v_TO = ''NODEB'', v_TYPE_NAME = ''I-bran''\<rparr>]),
      (''measurement_nodes'', VStrs [''NODEA'']),
      (''type_signals'', VStrs [''I-bran'']),
      (''labels'', VStrs [''NODEA-NODEB (I-bran)''])]"
  by code_simp

lemma example_pl4_padded_header:
  "u32_le_at example_pl4_padded 48 = 2" "u32_le_at example_pl4_padded 56 = 117"
  "length example_pl4_padded = 116" "uint (example_pl4_padded ! 83) = 57"
  by (simp_all add: u32_le_at_def example_pl4_padded_def)

text \<open>
  C1.  Whenever \<open>readpl4\<close> returns a dictionary, the file has at least 60 bytes,
  \<open>delta_t\<close> is the value of the binary32 pattern stored little-endian at offset 40,
  \<open>n_channels\<close> is the little-endian unsigned integer at offset 48 divided by 2
  (floor), \<open>n_samples\<close> is \<open>(pl4size - 5*16 - nvar*16) div ((nvar+1)*4)\<close> (floor) with
  \<open>pl4size\<close> the little-endian unsigned integer at offset 56 minus 1, and \<open>tmax\<close> is
  the float product \<open>(n_samples - 1) * delta_t\<close>.  It does return when the record
  count is not negative, the declared size lies within the file and each channel
  descriptor lies within the file and carries a digit as its type.
\<close>

theorem C1_readpl4_header:
  assumes nvar: "nvar = u32_le_at pl4 48 div 2"
    and size: "pl4size = u32_le_at pl4 56 - 1"
    and steps: "steps = (pl4size - 5 * 16 - nvar * 16) div ((nvar + 1) * 4)"
  shows "(readpl4 ops dec pl4 = Inr r \<longrightarrow>
            60 \<le> length pl4 \<and>
            dict_get r ''delta_t'' = Some (VFloat (f32_value (u32_le_at pl4 40))) \<and>
            dict_get r ''n_channels'' = Some (VInt nvar) \<and>
            dict_get r ''n_samples'' = Some (VInt steps) \<and>
            (\<exists>tmax. int_times_float ops (steps - 1) (f32_value (u32_le_at pl4 40)) = Inr tmax \<and>
                    dict_get r ''tmax'' = Some (VFloat tmax)))
       \<and> (60 \<le> length pl4 \<and> 0 \<le> steps \<and> pl4size \<le> int (length pl4) \<and>
          float_of_int ops (steps - 1) \<noteq> None \<and>
          (\<forall>i < nat nvar. 5 * 16 + i * 16 + 16 \<le> length pl4
             \<and> 48 \<le> uint (pl4 ! (5 * 16 + i * 16 + 3)) \<and> uint (pl4 ! (5 * 16 + i * 16 + 3)) \<le> 57)
          \<longrightarrow> (\<exists>r'. readpl4 ops dec pl4 = Inr r'))"
proof (intro conjI impI)
  assume ok: "readpl4 ops dec pl4 = Inr r"
  from readpl4_Inr [OF ok nvar size steps refl]
  obtain tmax where
    "60 \<le> length pl4"
    "int_times_float ops (steps - 1) (f32_value (u32_le_at pl4 40)) = Inr tmax"
    "dict_get r ''delta_t'' = Some (VFloat (f32_value (u32_le_at pl4 40)))"
    "dict_get r ''n_channels'' = Some (VInt nvar)"
    "dict_get r ''n_samples'' = Some (VInt steps)"
    "dict_get r ''tmax'' = Some (VFloat tmax)"
    by blast
  then show "60 \<le> length pl4"
    and "dict_get r ''delta_t'' = Some (VFloat (f32_value (u32_le_at pl4 40)))"
    and "dict_get r ''n_channels'' = Some (VInt nvar)"
    and "dict_get r ''n_samples'' = Some (VInt steps)"
    and "\<exists>tmax. int_times_float ops (steps - 1) (f32_value (u32_le_at pl4 40)) = Inr tmax \<and>
                    dict_get r ''tmax'' = Some (VFloat tmax)"
    by blast+
next
  assume wf: "60 \<le> length pl4 \<and> 0 \<le> steps \<and> pl4size \<le> int (length pl4) \<and>
          float_of_int ops (steps - 1) \<noteq> None \<and>
          (\<forall>i < nat nvar. 5 * 16 + i * 16 + 16 \<le> length pl4
             \<and> 48 \<le> uint (pl4 ! (5 * 16 + i * 16 + 3)) \<and> uint (pl4 ! (5 * 16 + i * 16 + 3)) \<le> 57)"
  then show "\<exists>r'. readpl4 ops dec pl4 = Inr r'"
    using readpl4_returns [OF nvar size steps] by blast
qed

theorem C1_readpl4_header_witness:
  "readpl4 (exact_ops id) example_dec example_pl4 = Inr [(''data'', VArr (Arr2 2 [[Finite 1, Finite 2]])),
      (''time'', VArr (Arr1 [Finite 0, Finite (1 / 2)])),
      (''method'', VStr ''readpl4_mmap_based''), (''n_channels'', VInt 1),
      (''n_samples'', VInt 2), (''delta_t'', VFloat (Finite (1 / 2))),
      (''tmax'', VFloat (Finite (1 / 2))),
      (''var_info'',
       VInfo [\<lparr>v_TYPE = 9, v_FROM = ''NODEA'', v_TO = ''NODEB'', v_TYPE_NAME = ''I-bran''\<rparr>]),
      (''measurement_nodes'', VStrs [''NODEA'']),
      (''type_signals'', VStrs [''I-bran'']),
      (''labels'', VStrs [''NODEA-NODEB (I-bran)''])]
   \<and> u32_le_at example_pl4 48 div 2 = 1
   \<and> (u32_le_at example_pl4 56 - 1 - 5 * 16 - 1 * 16) div ((1 + 1) * 4) = 2
   \<and> int_times_float (exact_ops id) (2 - 1) (f32_value (u32_le_at example_pl4 40)) = Inr (Finite (1 / 2))"
proof -
  let ?R = "[(''data'', VArr (Arr2 2 [[Finite 1, Finite 2]])),
      (''time'', VArr (Arr1 [Finite 0, Finite (1 / 2)])),
      (''method'', VStr ''readpl4_mmap_based''), (''n_channels'', VInt 1),
      (''n_samples'', VInt 2), (''delta_t'', VFloat (Finite (1 / 2))),
      (''tmax'', VFloat (Finite (1 / 2))),
      (''var_info'',
       VInfo [\<lparr>v_TYPE = 9, v_FROM = ''NODEA'', v_TO = ''NODEB'', v_TYPE_NAME = ''I-bran''\<rparr>]),
      (''measurement_nodes'', VStrs [''NODEA'']),
      (''type_signals'', VStrs [''I-bran'']),
      (''labels'', VStrs [''NODEA-NODEB (I-bran)''])]"
  have ok: "readpl4 (exact_ops id) example_dec example_pl4 = Inr ?R"
    by (rule example_pl4_decoded)
  have nvar: "1 = u32_le_at example_pl4 48 div 2"
    and size: "112 = u32_le_at example_pl4 56 - 1"
    and steps: "2 = ((112::int) - 5 * 16 - 1 * 16) div ((1 + 1) * 4)"
    by (simp_all add: example_pl4_header)
  from C1_readpl4_header [OF nvar size steps, of "exact_ops id" example_dec ?R,
      THEN conjunct1, rule_format, OF ok]
  obtain tmax where
    t: "int_times_float (exact_ops id) (2 - 1) (f32_value (u32_le_at example_pl4 40)) = Inr tmax"
    and g: "dict_get ?R ''tmax'' = Some (VFloat tmax)"
    by blast
  from g have "tmax = Finite (1 / 2)"
    by (simp add: dict_get_def)
  with t ok nvar size show ?thesis
    by (simp add: example_pl4_header)
qed

text \<open>
  C2 (as stated, refuted).  The padded example declares 116 payload bytes for one
  channel: \<open>116 - 5*16 - 16 = 20\<close> is not a multiple of \<open>(1+1)*4 = 8\<close>, yet
  \<open>readpl4\<close> returns a dictionary with two records and raises nothing.
\<close>

theorem C2_padded_file_counterexample:
  "(u32_le_at example_pl4_padded 56 - 1 - 5 * 16 - (u32_le_at example_pl4_padded 48 div 2) * 16)
      mod ((u32_le_at example_pl4_padded 48 div 2 + 1) * 4) = 4
   \<and> readpl4 (exact_ops id) example_dec example_pl4_padded = Inr [(''data'', VArr (Arr2 2 [[Finite 1, Finite 2]])),
      (''time'', VArr (Arr1 [Finite 0, Finite (1 / 2)])),
      (''method'', VStr ''readpl4_mmap_based''), (''n_channels'', VInt 1),
      (''n_samples'', VInt 2), (''delta_t'', VFloat (Finite (1 / 2))),
      (''tmax'', VFloat (Finite (1 / 2))),
      (''var_info'',
       VInfo [\<lparr>v_TYPE = 9, v_FROM = ''NODEA'', v_TO = ''NODEB'', v_TYPE_NAME = ''I-bran''\<rparr>]),
      (''measurement_nodes'', VStrs [''NODEA'']),
      (''type_signals'', VStrs [''I-bran'']),
      (''labels'', VStrs [''NODEA-NODEB (I-bran)''])]"
  by code_simp

text \<open>
  C2 (amended).  When \<open>declared_size - 5*16 - channel_count*16\<close> is negative,
  \<open>readpl4\<close> raises and returns no dictionary.  When it is not a multiple of
  \<open>(channel_count+1)*4\<close> nothing is raised for that: on a file that holds the declared
  size and well-formed channel descriptors, the record count is the floor of the
  quotient and the remainder is skipped as padding in front of the records.
\<close>

theorem C2_negative_count_raises:
  assumes nvar: "nvar = u32_le_at pl4 48 div 2"
    and size: "pl4size = u32_le_at pl4 56 - 1"
    and numer: "numer = pl4size - 5 * 16 - nvar * 16"
    and den: "den = (nvar + 1) * 4"
  shows "(numer < 0 \<longrightarrow> (\<exists>e. readpl4 ops dec pl4 = Inl e))
       \<and> (0 \<le> numer \<and> 60 \<le> length pl4 \<and> pl4size \<le> int (length pl4) \<and>
          float_of_int ops (numer div den - 1) \<noteq> None \<and>
          (\<forall>i < nat nvar. 5 * 16 + i * 16 + 16 \<le> length pl4
             \<and> 48 \<le> uint (pl4 ! (5 * 16 + i * 16 + 3)) \<and> uint (pl4 ! (5 * 16 + i * 16 + 3)) \<le> 57)
          \<longrightarrow> (\<exists>r. readpl4 ops dec pl4 = Inr r \<and>
                 dict_get r ''n_samples'' = Some (VInt (numer div den)) \<and>
                 dict_get r ''time'' = Some (VArr (Arr1
                   (map (\<lambda>i. f32_at pl4 (nat ((5 + nvar) * 16 + numer mod den) + i * nat den))
                        [0..<nat (numer div den)])))))"
proof (intro conjI impI)
  have nv: "0 \<le> nvar"
    using u32_le_at_nonneg [of pl4 48] by (simp add: nvar)
  then have dpos: "0 < den" by (simp add: den)
  have steps: "numer div den = (pl4size - 5 * 16 - nvar * 16) div ((nvar + 1) * 4)"
    by (simp add: numer den)
  {
    assume neg: "numer < 0"
    from neg dpos have sneg: "numer div den < 0"
      by (rule div_neg_pos_less0)
    show "\<exists>e. readpl4 ops dec pl4 = Inl e"
    proof (cases "readpl4 ops dec pl4")
      case (Inl e)
      then show ?thesis by blast
    next
      case (Inr r)
      from readpl4_Inr [OF Inr nvar size steps refl]
      obtain rows nb where "np_memmap pl4 (numer div den) (nvar + 1) ((5 + nvar) * 16 + nb) = Inr rows"
        by blast
      with sneg show ?thesis by (simp add: np_memmap_def)
    qed
  }
  {
    assume wf: "0 \<le> numer \<and> 60 \<le> length pl4 \<and> pl4size \<le> int (length pl4) \<and>
          float_of_int ops (numer div den - 1) \<noteq> None \<and>
          (\<forall>i < nat nvar. 5 * 16 + i * 16 + 16 \<le> length pl4
             \<and> 48 \<le> uint (pl4 ! (5 * 16 + i * 16 + 3)) \<and> uint (pl4 ! (5 * 16 + i * 16 + 3)) \<le> 57)"
    then have spos: "0 \<le> numer div den"
      using dpos by (simp add: pos_imp_zdiv_nonneg_iff)
    from readpl4_returns [OF nvar size steps _ spos] wf
    obtain r where ok: "readpl4 ops dec pl4 = Inr r" by blast
    let ?nb = "(if pl4size > (5 + nvar) * 16 + numer div den * (nvar + 1) * 4
                then pl4size - ((5 + nvar) * 16 + numer div den * (nvar + 1) * 4) else 0)"
    from readpl4_Inr [OF ok nvar size steps refl]
    obtain rows where
      rows: "np_memmap pl4 (numer div den) (nvar + 1) ((5 + nvar) * 16 + ?nb) = Inr rows"
      and ns: "dict_get r ''n_samples'' = Some (VInt (numer div den))"
      and tm: "dict_get r ''time'' = Some (VArr (Arr1 (map (\<lambda>row. row ! 0) rows)))"
      by blast
    have nb: "?nb = numer mod den"
      using nullbytes_mod [OF nv, of pl4size] by (simp only: numer den)
    have ncols: "0 < nvar + 1" using nv by simp
    have dn: "nat (nvar + 1) * 4 = nat den"
      using nv by (simp add: den)
    from memmap_time [OF rows ncols]
    have "map (\<lambda>row. row ! 0) rows
         = map (\<lambda>i. f32_at pl4 (nat ((5 + nvar) * 16 + numer mod den) + i * nat den))
               [0..<nat (numer div den)]"
      by (simp only: nb dn)
    with ok ns tm
    show "\<exists>r. readpl4 ops dec pl4 = Inr r \<and>
                 dict_get r ''n_samples'' = Some (VInt (numer div den)) \<and>
                 dict_get r ''time'' = Some (VArr (Arr1
                   (map (\<lambda>i. f32_at pl4 (nat ((5 + nvar) * 16 + numer mod den) + i * nat den))
                        [0..<nat (numer div den)])))"
      by auto
  }
qed

theorem C2_negative_count_raises_witness:
  "(\<exists>e. readpl4 (exact_ops id) example_dec (replicate 60 0) = Inl e)
   \<and> (\<exists>r. readpl4 (exact_ops id) example_dec example_pl4_padded = Inr r \<and>
          dict_get r ''n_samples'' = Some (VInt 2))"
proof
  have nvar: "(0::int) = u32_le_at (replicate 60 0) 48 div 2"
    and size: "(- 1::int) = u32_le_at (replicate 60 0) 56 - 1"
    and numer: "(- 81::int) = - 1 - 5 * 16 - 0 * 16"
    and den: "(4::int) = (0 + 1) * 4"
    by (simp_all add: u32_le_at_def)
  from C2_negative_count_raises [OF nvar size numer den, of "exact_ops id" example_dec,
      THEN conjunct1]
  show "\<exists>e. readpl4 (exact_ops id) example_dec (replicate 60 0) = Inl e"
    by simp
next
  have nvar: "(1::int) = u32_le_at example_pl4_padded 48 div 2"
    and size: "(116::int) = u32_le_at example_pl4_padded 56 - 1"
    and numer: "(20::int) = 116 - 5 * 16 - 1 * 16"
    and den: "(8::int) = (1 + 1) * 4"
    by (simp_all add: example_pl4_padded_header)
  have wf: "(0::int) \<le> 20 \<and> 60 \<le> length example_pl4_padded \<and>
      (116::int) \<le> int (length example_pl4_padded) \<and>
      float_of_int (exact_ops id :: pyfloat num_ops) (20 div 8 - 1) \<noteq> None \<and>
      (\<forall>i < nat 1. 5 * 16 + i * 16 + 16 \<le> length example_pl4_padded
         \<and> 48 \<le> uint (example_pl4_padded ! (5 * 16 + i * 16 + 3))
         \<and> uint (example_pl4_padded ! (5 * 16 + i * 16 + 3)) \<le> 57)"
    by (simp add: example_pl4_padded_header exact_ops_def)
  from C2_negative_count_raises [OF nvar size numer den, of "exact_ops id" example_dec,
      THEN conjunct2, rule_format, OF wf]
  show "\<exists>r. readpl4 (exact_ops id) example_dec example_pl4_padded = Inr r \<and>
          dict_get r ''n_samples'' = Some (VInt 2)"
    by auto
qed

subsection \<open>Cropping\<close>

lemma max_trunc_floor: "max (py_trunc x) 0 = max \<lfloor>x\<rfloor> 0"
proof (cases "0 \<le> x")
  case True
  then show ?thesis by (simp add: py_trunc_def)
next
  case False
  then have "\<lceil>x\<rceil> \<le> 0" and "\<lfloor>x\<rfloor> \<le> 0"
    by (simp_all add: ceiling_le_zero)
  with False show ?thesis by (simp add: py_trunc_def max_def)
qed

lemma calc_n_remover_floor:
  "calc_n_remover ops fs f t =
     (case int_times_float ops fs f of
        Inl e \<Rightarrow> 0
      | Inr p \<Rightarrow> (case flt_mul ops p t of Finite x \<Rightarrow> max \<lfloor>x\<rfloor> 0 | _ \<Rightarrow> 0))"
  by (cases "int_times_float ops fs f"; cases "flt_mul ops (projr (int_times_float ops fs f)) t")
     (simp_all add: calc_n_remover_def max_trunc_floor)

lemma store_cut_result:
  assumes "dict_get d ''delta_t'' = Some (VFloat dt)"
    and "int_times_float ops (int (val_shape0 tn) - 1) dt = Inr tm"
  shows "store_cut ops d tn dn =
     Inr (dict_set (dict_set (dict_set (dict_set d ''time'' tn) ''data'' dn)
            ''n_samples'' (VInt (int (val_shape0 tn)))) ''tmax'' (VFloat tm))"
  using assms by (simp add: store_cut_def Let_def dict_get_set)

lemma apply_cut_start:
  assumes "rem" "py_gt0 t"
    and "dict_get d ''time'' = Some (VArr (Arr1 ts))"
    and "dict_get d ''data'' = Some (VArr (Arr2 (length ts) rows))"
    and "n = calc_n_remover ops fs f t" "0 < n" "n < int (length ts)"
    and "lower_str edge \<noteq> ''fim''"
  shows "apply_cut_full_dict ops d rem fs f t edge =
     store_cut ops d (VArr (Arr1 (drop (nat n) ts)))
       (VArr (Arr2 (length ts - nat n) (map (drop (nat n)) rows)))"
  using assms by (simp add: apply_cut_full_dict_def Let_def)

lemma apply_cut_end:
  assumes "rem" "py_gt0 t"
    and "dict_get d ''time'' = Some (VArr (Arr1 ts))"
    and "dict_get d ''data'' = Some (VArr (Arr2 (length ts) rows))"
    and "n = calc_n_remover ops fs f t" "0 < n" "n < int (length ts)"
    and "lower_str edge = ''fim''"
  shows "apply_cut_full_dict ops d rem fs f t edge =
     store_cut ops d (VArr (Arr1 (take (length ts - nat n) ts)))
       (VArr (Arr2 (length ts - nat n) (map (take (length ts - nat n)) rows)))"
  using assms by (simp add: apply_cut_full_dict_def Let_def)

lemma recortar_start:
  assumes "remover_amostras self" "py_gt0 (tempo_remover_s self)"
    and "dict_get d ''time'' = Some (VArr (Arr1 ts))"
    and "dict_get d ''data'' = Some (VArr (Arr2 (length ts) rows))"
    and "n = n_remover ops self" "0 < n" "n < int (length ts)"
    and "remover_de self \<noteq> ''fim''"
  shows "recortar_resultado ops self d =
     store_cut ops d (VArr (Arr1 (drop (nat n) ts)))
       (VArr (Arr2 (length ts - nat n) (map (drop (nat n)) rows)))"
  using assms by (simp add: recortar_resultado_def Let_def)

lemma recortar_end:
  assumes "remover_amostras self" "py_gt0 (tempo_remover_s self)"
    and "dict_get d ''time'' = Some (VArr (Arr1 ts))"
    and "dict_get d ''data'' = Some (VArr (Arr2 (length ts) rows))"
    and "n = n_remover ops self" "0 < n" "n < int (length ts)"
    and "remover_de self = ''fim''"
  shows "recortar_resultado ops self d =
     store_cut ops d (VArr (Arr1 (take (length ts - nat n) ts)))
       (VArr (Arr2 (length ts - nat n) (map (take (length ts - nat n)) rows)))"
  using assms by (simp add: recortar_resultado_def Let_def)

text \<open>
  C4.  Let the dictionary hold a one-dimensional \<open>time\<close> of length \<open>N\<close>, a
  two-dimensional \<open>data\<close> with \<open>N\<close> columns and the sampling interval
  \<open>delta_t\<close>, let cropping be enabled and let the computed count \<open>n\<close> satisfy
  \<open>0 < n < N\<close>.  Then \<open>_apply_cut_full_dict\<close> and
  \<open>Pl4Processor._recortar_resultado\<close> both return the dictionary in which \<open>time\<close>
  and every row of \<open>data\<close> have lost exactly their first \<open>n\<close> samples (edge
  "inicio") or their last \<open>n\<close> samples (edge "fim"), \<open>n_samples\<close> is \<open>N - n\<close> and
  \<open>tmax\<close> is \<open>(N - n - 1) * delta_t\<close>.  After a crop from the start the first time
  value is the old value at index \<open>n\<close>; both axes shrink by exactly \<open>n\<close>.
\<close>

theorem C4_crop_removes_n_samples:
  assumes time: "dict_get d ''time'' = Some (VArr (Arr1 ts))"
    and data: "dict_get d ''data'' = Some (VArr (Arr2 (length ts) rows))"
    and delta: "dict_get d ''delta_t'' = Some (VFloat dt)"
    and on: "remover_amostras self" "py_gt0 (tempo_remover_s self)"
    and n: "n = calc_n_remover ops (fs_por_ciclo self) (freq_rede_hz self) (tempo_remover_s self)"
      "0 < n" "n < int (length ts)"
    and tm: "int_times_float ops (int (length ts) - n - 1) dt = Inr tm"
    and edge: "(remover_de self = ''fim'') = (lower_str edge = ''fim'')"
    and ts': "ts' = (if lower_str edge = ''fim'' then take (length ts - nat n) ts else drop (nat n) ts)"
    and rows': "rows' = map (if lower_str edge = ''fim'' then take (length ts - nat n) else drop (nat n)) rows"
    and out: "out = dict_set (dict_set (dict_set (dict_set d
                 ''time'' (VArr (Arr1 ts')))
                 ''data'' (VArr (Arr2 (length ts - nat n) rows')))
                 ''n_samples'' (VInt (int (length ts) - n)))
                 ''tmax'' (VFloat tm)"
  shows "apply_cut_full_dict ops d (remover_amostras self) (fs_por_ciclo self) (freq_rede_hz self)
           (tempo_remover_s self) edge = Inr out
       \<and> recortar_resultado ops self d = Inr out
       \<and> length ts' = length ts - nat n
       \<and> (lower_str edge \<noteq> ''fim'' \<longrightarrow> hd ts' = ts ! nat n)
       \<and> (lower_str edge = ''fim'' \<longrightarrow> ts' = take (length ts - nat n) ts)
       \<and> ((\<forall>r \<in> set rows. length r = length ts) \<longrightarrow> (\<forall>r \<in> set rows'. length r = length ts - nat n))"
proof -
  have len: "length ts' = length ts - nat n"
    using n by (auto simp: ts')
  have shape: "int (val_shape0 (VArr (Arr1 ts'))) = int (length ts) - n"
    using len n by simp
  have tm': "int_times_float ops (int (val_shape0 (VArr (Arr1 ts'))) - 1) dt = Inr tm"
    using tm shape by simp
  have n': "n = n_remover ops self"
    by (simp add: n n_remover_def)
  have store: "store_cut ops d (VArr (Arr1 ts')) (VArr (Arr2 (length ts - nat n) rows')) = Inr out"
    using store_cut_result [OF delta tm'] shape by (simp add: out)
  have a: "apply_cut_full_dict ops d (remover_amostras self) (fs_por_ciclo self) (freq_rede_hz self)
           (tempo_remover_s self) edge = Inr out"
  proof (cases "lower_str edge = ''fim''")
    case True
    then show ?thesis
      using apply_cut_end [OF on time data n True] store by (simp add: ts' rows')
  next
    case False
    then show ?thesis
      using apply_cut_start [OF on time data n False] store by (simp add: ts' rows')
  qed
  have b: "recortar_resultado ops self d = Inr out"
  proof (cases "lower_str edge = ''fim''")
    case True
    with edge have e: "remover_de self = ''fim''" by simp
    show ?thesis
      using recortar_end [OF on time data n' n(2,3) e] store True by (simp add: ts' rows')
  next
    case False
    with edge have e: "remover_de self \<noteq> ''fim''" by simp
    show ?thesis
      using recortar_start [OF on time data n' n(2,3) e] store False by (simp add: ts' rows')
  qed
  have h: "lower_str edge \<noteq> ''fim'' \<longrightarrow> hd ts' = ts ! nat n"
    using n by (simp add: ts' hd_drop_conv_nth)
  have r: "(\<forall>r \<in> set rows. length r = length ts) \<longrightarrow> (\<forall>r \<in> set rows'. length r = length ts - nat n)"
    using n by (auto simp: rows')
  have e: "lower_str edge = ''fim'' \<longrightarrow> ts' = take (length ts - nat n) ts"
    by (simp add: ts')
  show ?thesis
    by (intro conjI a b len h e r)
qed


theorem C4_crop_removes_n_samples_witness:
  "apply_cut_full_dict (exact_ops Finite)
      [(''time'', VArr (Arr1 [0, 1, 2, 3])),
       (''data'', VArr (Arr2 4 [[10, 11, 12, 13], [20, 21, 22, 23]])),
       (''delta_t'', VFloat (Finite 1))] True 1 (Finite 1) (Finite 1) ''inicio''
   = Inr [(''time'', VArr (Arr1 [1, 2, 3])),
       (''data'', VArr (Arr2 3 [[11, 12, 13], [21, 22, 23]])),
       (''delta_t'', VFloat (Finite 1)),
       (''n_samples'', VInt 3),
       (''tmax'', VFloat (Finite 2))]"
proof -
  let ?d = "[(''time'', VArr (Arr1 [0, 1, 2, 3])),
       (''data'', VArr (Arr2 4 [[10, 11, 12, 13], [20, 21, 22, 23]])),
       (''delta_t'', VFloat (Finite 1))] :: real pydict"
  let ?ts = "[0, 1, 2, 3] :: real list"
  let ?self = "\<lparr>remover_amostras = True, fs_por_ciclo = 1, freq_rede_hz = Finite 1,
       tempo_remover_s = Finite 1, remover_de = ''inicio''\<rparr>"
  have time: "dict_get ?d ''time'' = Some (VArr (Arr1 ?ts))"
    by (simp add: dict_get_def)
  have data: "dict_get ?d ''data'' = Some (VArr (Arr2 (length ?ts) [[10, 11, 12, 13], [20, 21, 22, 23]]))"
    by (simp add: dict_get_def)
  have delta: "dict_get ?d ''delta_t'' = Some (VFloat (Finite 1))"
    by (simp add: dict_get_def)
  have on: "remover_amostras ?self" "py_gt0 (tempo_remover_s ?self)"
    by simp_all
  have n: "1 = calc_n_remover (exact_ops Finite) (fs_por_ciclo ?self) (freq_rede_hz ?self) (tempo_remover_s ?self)"
      "0 < (1::int)" "1 < int (length ?ts)"
    by (simp_all add: calc_n_remover_def exact_ops_def int_times_float_def py_trunc_def)
  have tm: "int_times_float (exact_ops Finite) (int (length ?ts) - 1 - 1) (Finite 1) = Inr (Finite 2)"
    by (simp add: exact_ops_def int_times_float_def)
  have edge: "(remover_de ?self = ''fim'') = (lower_str ''inicio'' = ''fim'')"
    by (simp add: lower_str_def lower_char_def)
  from C4_crop_removes_n_samples [OF time data delta on n tm edge refl refl refl]
  show ?thesis
    by (simp add: dict_set_def lower_str_def lower_char_def)
qed

text \<open>
  C5.  The crop count is the floor of the float product
  \<open>fs_por_ciclo * freq_rede_hz * tempo_remover_s\<close>, clamped at zero (and zero when the
  product cannot be converted).  \<open>_apply_cut_full_dict\<close> returns its input unchanged,
  without raising, when the count is not positive, when it reaches the length of
  \<open>time\<close>, when \<open>time\<close> is not one-dimensional, when \<open>data\<close> is not
  two-dimensional or its column count differs from the length of \<open>time\<close>, and when
  a key is missing; with zero seconds to remove it is the identity on every dictionary.
\<close>

theorem C5_crop_noop:
  "calc_n_remover ops fs f t =
     (case int_times_float ops fs f of
        Inl e \<Rightarrow> 0
      | Inr p \<Rightarrow> (case flt_mul ops p t of Finite x \<Rightarrow> max \<lfloor>x\<rfloor> 0 | _ \<Rightarrow> 0))
   \<and> (calc_n_remover ops fs f t \<le> 0 \<longrightarrow>
        apply_cut_full_dict ops d rem fs f t edge = Inr d)
   \<and> (\<forall>time. dict_get d ''time'' = Some time \<and>
          (int (val_shape0 time) \<le> calc_n_remover ops fs f t \<or> val_ndim time \<noteq> 1) \<longrightarrow>
        apply_cut_full_dict ops d rem fs f t edge = Inr d)
   \<and> (\<forall>time data. dict_get d ''time'' = Some time \<and> dict_get d ''data'' = Some data \<and>
          (val_ndim data \<noteq> 2 \<or> val_shape1 data \<noteq> val_shape0 time) \<longrightarrow>
        apply_cut_full_dict ops d rem fs f t edge = Inr d)
   \<and> (dict_get d ''time'' = None \<or> dict_get d ''data'' = None \<longrightarrow>
        apply_cut_full_dict ops d rem fs f t edge = Inr d)
   \<and> apply_cut_full_dict ops d rem fs f (Finite 0) edge = Inr d"
proof -
  have c: "apply_cut_full_dict ops d rem fs f t edge = Inr d"
    if "calc_n_remover ops fs f t \<le> 0"
    using that by (auto simp: apply_cut_full_dict_def Let_def split: option.splits)
  have tm: "apply_cut_full_dict ops d rem fs f t edge = Inr d"
    if "dict_get d ''time'' = Some time"
      and "int (val_shape0 time) \<le> calc_n_remover ops fs f t \<or> val_ndim time \<noteq> 1"
    for time
    using that by (auto simp: apply_cut_full_dict_def Let_def split: option.splits)
  have dt: "apply_cut_full_dict ops d rem fs f t edge = Inr d"
    if "dict_get d ''time'' = Some time" and "dict_get d ''data'' = Some data"
      and "val_ndim data \<noteq> 2 \<or> val_shape1 data \<noteq> val_shape0 time"
    for time data
    using that by (auto simp: apply_cut_full_dict_def Let_def)
  have mis: "apply_cut_full_dict ops d rem fs f t edge = Inr d"
    if "dict_get d ''time'' = None \<or> dict_get d ''data'' = None"
    using that by (auto simp: apply_cut_full_dict_def Let_def split: option.splits)
  have z: "apply_cut_full_dict ops d rem fs f (Finite 0) edge = Inr d"
    by (simp add: apply_cut_full_dict_def)
  show ?thesis
    using c tm dt mis z by (intro conjI allI impI calc_n_remover_floor) blast+
qed


theorem C5_crop_noop_witness:
  "calc_n_remover (exact_ops Finite) 2 (Finite 3) (Finite (5/2)) = 15
   \<and> apply_cut_full_dict (exact_ops Finite)
        [(''time'', VArr (Arr1 [0, 1, 2, 3])), (''data'', VArr (Arr2 4 [[10, 11, 12, 13]]))]
        True 2 (Finite 3) (Finite (5/2)) ''inicio''
      = Inr [(''time'', VArr (Arr1 [0, 1, 2, 3])), (''data'', VArr (Arr2 4 [[10, 11, 12, 13]]))]"
proof -
  let ?d = "[(''time'', VArr (Arr1 [0, 1, 2, 3])), (''data'', VArr (Arr2 4 [[10, 11, 12, 13]]))] :: real pydict"
  note inst = C5_crop_noop [of "exact_ops Finite" 2 "Finite 3" "Finite (5/2)" ?d True "''inicio''"]
  have n: "calc_n_remover (exact_ops Finite) 2 (Finite 3) (Finite (5/2)) = 15"
    using inst [THEN conjunct1]
    by (simp add: exact_ops_def int_times_float_def)
  have time: "dict_get ?d ''time'' = Some (VArr (Arr1 [0, 1, 2, 3]))"
    by (simp add: dict_get_def)
  have big: "int (val_shape0 (VArr (Arr1 [0, 1, 2, 3 :: real]))) \<le> calc_n_remover (exact_ops Finite) 2 (Finite 3) (Finite (5/2))"
    by (simp add: n)
  from inst [THEN conjunct2, THEN conjunct2, THEN conjunct1, rule_format, of "VArr (Arr1 [0, 1, 2, 3])"]
    time big
  have "apply_cut_full_dict (exact_ops Finite) ?d True 2 (Finite 3) (Finite (5/2)) ''inicio'' = Inr ?d"
    by blast
  with n show ?thesis by simp
qed

subsection \<open>Duplicate labels\<close>

lemma rename_loop_length: "length (rename_loop counts seen ls) = length ls"
  by (induction ls arbitrary: seen) (auto simp: Let_def)

lemma rename_loop_nth:
  "i < length ls \<Longrightarrow>
   rename_loop counts seen ls ! i =
     (if counts (ls ! i) > 1
      then ls ! i @ ''_'' @
           str_nat ((case seen (ls ! i) of None \<Rightarrow> 0 | Some c \<Rightarrow> c)
                    + count_list (take (Suc i) ls) (ls ! i))
      else ls ! i)"
proof (induction ls arbitrary: seen i)
  case Nil
  then show ?case by simp
next
  case (Cons a ls)
  show ?case
  proof (cases i)
    case 0
    then show ?thesis by (simp add: Let_def)
  next
    case (Suc j)
    with Cons.prems have j: "j < length ls" by simp
    show ?thesis
      using Cons.IH [OF j] Suc by (auto simp: Let_def split: option.splits)
  qed
qed

text \<open>
  C3 (as stated, refuted).  For the labels \<open>["A","A","B"]\<close> the claim promises the
  columns \<open>["A","A_2","B"]\<close>; the renaming loop numbers every occurrence of a repeated
  label, the first one included, and yields \<open>["A_1","A_2","B"]\<close>.
\<close>

theorem C3_first_occurrence_counterexample:
  "dedup_labels [''A'', ''A'', ''B''] = [''A_1'', ''A_2'', ''B''] \<and>
   dedup_labels [''A'', ''A'', ''B''] \<noteq> [''A'', ''A_2'', ''B'']"
  by (simp add: dedup_labels_def str_nat.simps digit_char_def)

text \<open>
  C3 (amended).  Renaming keeps the number and order of the labels.  A label that occurs
  once is never renamed; every occurrence of a repeated label, the first included,
  receives the suffix \<open>_k\<close>, where \<open>k\<close> counts its occurrences up to and including
  this one, in encounter order.
\<close>

theorem C3_dedup_labels_occurrence:
  "i < length ls \<Longrightarrow>
   length (dedup_labels ls) = length ls \<and>
   dedup_labels ls ! i =
     (if count_list ls (ls ! i) > 1
      then ls ! i @ ''_'' @ str_nat (count_list (take (Suc i) ls) (ls ! i))
      else ls ! i)"
proof (cases "\<exists>l \<in> set ls. count_list ls l > 1")
  case True
  assume "i < length ls"
  with True show ?thesis
    by (simp add: dedup_labels_def rename_loop_length rename_loop_nth)
next
  case False
  assume i: "i < length ls"
  with False have "\<not> count_list ls (ls ! i) > 1"
    by (meson nth_mem)
  with False show ?thesis
    by (simp add: dedup_labels_def)
qed

theorem C3_dedup_labels_occurrence_witness:
  "(1::nat) < length [''A'', ''A'', ''B''] \<and>
   length (dedup_labels [''A'', ''A'', ''B'']) = 3 \<and>
   dedup_labels [''A'', ''A'', ''B''] ! 1 = ''A_2''"
  using C3_dedup_labels_occurrence [of 1 "[''A'', ''A'', ''B'']"]
  by (simp add: str_nat.simps digit_char_def)

subsection \<open>Waiting for the converter's output\<close>

text \<open>
  C9 (the code departs from the claim).  The artifact \<open>foo.MAT\<close> is present at the
  first poll and its size is read as 10, 20, 30, 40, 50, 60: no two consecutive reads
  agree.  After the six reads the loop ends, the last size is positive, and
  \<open>_wait_for_mat_creation_and_stabilize\<close> returns the path as a success.
\<close>

theorem C9_growing_size_returns_path:
  "wait_for_mat_creation_and_stabilize
     [(0, [(''foo.MAT'', File 10)])]
     (\<lambda>mat_path i. Some ([10, 20, 30, 40, 50, 60] ! i))
     ''foo'' WAIT_APPEAR_TIMEOUT
   = Some (Inr ''foo.MAT'')"
  by (simp add: wait_for_mat_creation_and_stabilize_def find_generated_mat_in_dir_def
      is_file_def STABILIZE_TRIES_def WAIT_APPEAR_TIMEOUT_def eval_nat_numeral)

text \<open>
  C10 (the code departs from the claim).  The working directory holds \<open>FOO.MAT\<close> from
  an earlier run and the input is \<open>foo.pl4\<close>.  None of \<open>foo.mat\<close>, \<open>foo.MAT\<close>,
  \<open>foo.Mat\<close> exists, so nothing is removed; the converter writes nothing; the poll's
  fallback matches \<open>FOO.MAT\<close> without regard to case, and the old file is moved and
  returned as the fresh result.
\<close>

theorem C10_stale_artifact_returned:
  "remove_old idle_converter [(''FOO.MAT'', File 5)] [''foo.mat'', ''foo.MAT'', ''foo.Mat'']
     = [(''FOO.MAT'', File 5)]
   \<and> run_pl42mat_like_matlab idle_converter [(''FOO.MAT'', File 5)] ''foo.pl4''
     = Some (Inr ''ArquivosMAT/FOO.MAT'')"
  by (simp add: run_pl42mat_like_matlab_def idle_converter_def exists_in_def
      wait_for_mat_creation_and_stabilize_def find_generated_mat_in_dir_def is_file_def
      path_stem_def path_suffix_def rfind_dot_def lower_str_def lower_char_def
      STABILIZE_TRIES_def WAIT_APPEAR_TIMEOUT_def eval_nat_numeral)

end
